theory Spec2Isabelle
  imports Complex_Main
begin

section \<open>Data model (shared/schema.ts)\<close>

text \<open>
  Row keys are \<^verbatim>\<open>varchar\<close> UUIDs in the schema. The handlers only compare them, so a
  key is an opaque value here, and a new row gets the next unused one. Quantities are
  integers (\<^verbatim>\<open>z.number().int()\<close>); money is an exact rational, so the binary floating
  point of the handlers' arithmetic is not modelled. Timestamps are left out; a table
  that is read in the order of \<^verbatim>\<open>created_at\<close> keeps its rows in the order of creation.
\<close>

type_synonym key = nat
type_synonym money = rat

datatype role = Admin | Employee

datatype req_status = Pending | Approved | Denied | Partial

datatype decision_status = ItemApproved | ItemDenied

datatype request_type = Single | Bulk

datatype notif_type = Success | Alert | Info

datatype change_type = Create | Update | Delete

text \<open>The table \<^verbatim>\<open>users\<close>, without the password and the approval stamp.\<close>

record User =
  userKey :: key
  userName :: string
  userEmail :: string
  userRole :: role
  isApproved :: bool

record Category =
  catKey :: key
  catName :: string

record InventoryItem =
  supplier :: string
  quantity :: int
  unitOfMeasure :: string
  itemName :: string
  categoryId :: "key option"
  location :: string
  unitCost :: money
  amount :: money
  remarks :: "string option"

text \<open>
  The table \<^verbatim>\<open>category_history\<close>. The new value is the snapshot the handlers write: the
  item's name and quantity, and for the direct create also its location and unit cost.
\<close>

record CategoryHistory =
  histCategoryId :: key
  histItemId :: "key option"
  histChangeType :: string
  histNewValue :: "string \<times> int \<times> (string \<times> money) option"
  histChangedBy :: "key option"

text \<open>\<^verbatim>\<open>itemPayloadSchema\<close>: the items of an inventory request.\<close>

record ItemPayload =
  pSupplier :: string
  pQuantity :: int
  pUnitOfMeasure :: string
  pItemName :: string
  pLocation :: string
  pUnitCost :: money
  pAmount :: money
  pRemarks :: "string option"
  pCategoryId :: "key option"
  pCategoryName :: "string option"

text \<open>\<^verbatim>\<open>releasedItemPayloadSchema\<close>: the items of a release request or report.\<close>

record ReleasedItemPayload =
  inventoryItemId :: key
  rQuantity :: int
  unit :: string
  particulars :: string
  rUnitCost :: money
  rAmount :: money
  rRemarks :: "string option"

text \<open>
  One entry of the \<^verbatim>\<open>itemStatuses\<close> JSON object. The object is keyed by
  \<^verbatim>\<open>index.toString()\<close>; the model keys it by the index itself. The reason is kept as
  the string the caller sent.
\<close>

record ItemStatus =
  stStatus :: decision_status
  stReason :: "string option"

type_synonym item_statuses = "int \<rightharpoonup> ItemStatus"

record InventoryRequest =
  irEmployeeId :: key
  requestType :: request_type
  irItems :: "ItemPayload list"
  irItemStatuses :: "item_statuses option"
  irStatus :: req_status
  irReviewedBy :: "key option"

record ReleasedOrderRequest =
  roEmployeeId :: key
  roDepartmentOffice :: string
  roRsNo :: "string option"
  roIsPartial :: bool
  roItems :: "ReleasedItemPayload list"
  roItemStatuses :: "item_statuses option"
  roStatus :: req_status
  roReviewedBy :: "key option"

record ReleasedOrderReport =
  sroNo :: string
  rsNo :: "string option"
  departmentOffice :: string
  isPartial :: bool
  items :: "ReleasedItemPayload list"
  totalAmount :: money
  releasedBy :: key
  receivedBy :: "string option"

text \<open>
  The table \<^verbatim>\<open>audit_events\<close>. The snapshot of the actor is the name and the e-mail
  address; the snapshot after a create is the item's name, quantity and location.
\<close>

record AuditEvent =
  entityType :: string
  entityId :: key
  action :: string
  actorId :: "key option"
  actorSnapshot :: "string \<times> string"
  auditAfter :: "string \<times> int \<times> string"

text \<open>
  The texts of the notifications are template strings in the source; the model keeps
  which template was chosen and the values put into it.
\<close>

datatype notif_title =
    TitleItemsApproved
  | TitleRequestDenied
  | TitleNewReleasedOrderRequest
  | TitleReleasedOrder req_status

datatype notif_message =
    MsgItemApproved string
  | MsgAllApproved nat
  | MsgRequestDenied
  | MsgMixed nat nat
  | MsgReleaseSubmitted nat
  | MsgReleaseReviewed req_status

record Notification =
  nUserId :: key
  nType :: notif_type
  nTitle :: notif_title
  nMessage :: notif_message
  nTargetRoute :: string

text \<open>What the handlers push over the socket.\<close>

datatype event =
    InventoryChange change_type "InventoryItem option"
  | RequestChange change_type key
  | NotificationPush key

section \<open>The database\<close>

text \<open>
  The tables of \<^verbatim>\<open>shared/schema.ts\<close> that the handlers below read or write, and the
  socket's output. Tables that are looked up by key are maps from the key; the others
  are lists, oldest row first.
\<close>

record db =
  inventoryItems :: "key \<rightharpoonup> InventoryItem"
  categories :: "Category list"
  categoryHistory :: "CategoryHistory list"
  inventoryRequests :: "key \<rightharpoonup> InventoryRequest"
  releasedOrderRequests :: "key \<rightharpoonup> ReleasedOrderRequest"
  releasedOrderReports :: "ReleasedOrderReport list"
  notifications :: "Notification list"
  auditEvents :: "AuditEvent list"
  users :: "User list"
  emitted :: "event list"
  nextKey :: key

subsection \<open>Column types and constraints\<close>

text \<open>
  A statement that breaks a constraint of the schema is refused by the database: the
  query throws, nothing is written, and the handler's \<^verbatim>\<open>catch\<close> answers 500. The
  operations below return \<open>None\<close> for that.

  An \<^verbatim>\<open>integer\<close> column holds 32 bits. A \<^verbatim>\<open>numeric(12,2)\<close> column rounds to two places (a
  tie going away from zero) and refuses a value with more than ten digits before the
  point. \<^verbatim>\<open>Number.prototype.toFixed(2)\<close> rounds in the same way on an exact value.
\<close>

definition integerColumn :: "int \<Rightarrow> bool" where
  "integerColumn q \<longleftrightarrow> - 2147483648 \<le> q \<and> q \<le> 2147483647"

definition toFixed2 :: "money \<Rightarrow> money" where
  "toFixed2 x =
     (if 0 \<le> x then of_int \<lfloor>x * 100 + 1 / 2\<rfloor> / 100
      else - (of_int \<lfloor>- x * 100 + 1 / 2\<rfloor> / 100))"

definition numericColumn :: "money \<Rightarrow> money option" where
  "numericColumn x = (if \<bar>toFixed2 x\<bar> < 10000000000 then Some (toFixed2 x) else None)"

text \<open>A nullable reference holds when it is null or names a row.\<close>

definition foreignKey :: "('k \<Rightarrow> 'r option) \<Rightarrow> 'k option \<Rightarrow> bool" where
  "foreignKey table ref = (case ref of None \<Rightarrow> True | Some k \<Rightarrow> table k \<noteq> None)"

subsection \<open>DbStorage (server/storage.ts)\<close>

definition getUserById :: "db \<Rightarrow> key \<Rightarrow> User option" where
  "getUserById d k = find (\<lambda>u. userKey u = k) (users d)"

text \<open>Only the approved users, the newest first.\<close>

definition getAllUsers :: "db \<Rightarrow> User list" where
  "getAllUsers d = rev (filter isApproved (users d))"

definition getCategoryById :: "db \<Rightarrow> key \<Rightarrow> Category option" where
  "getCategoryById d k = find (\<lambda>c. catKey c = k) (categories d)"

definition getCategoryByName :: "db \<Rightarrow> string \<Rightarrow> Category option" where
  "getCategoryByName d n = find (\<lambda>c. catName c = n) (categories d)"

text \<open>The name of a category is unique.\<close>

definition createCategory :: "db \<Rightarrow> string \<Rightarrow> (Category \<times> db) option" where
  "createCategory d n =
     (if getCategoryByName d n \<noteq> None then None
      else Some (\<lparr>catKey = nextKey d, catName = n\<rparr>,
                 d\<lparr>categories := categories d @ [\<lparr>catKey = nextKey d, catName = n\<rparr>],
                   nextKey := Suc (nextKey d)\<rparr>))"

definition getInventoryItemById :: "db \<Rightarrow> key \<Rightarrow> InventoryItem option" where
  "getInventoryItemById d k = inventoryItems d k"

text \<open>
  The insert answers the row as stored, with its key: the unit cost and the amount as
  the \<^verbatim>\<open>numeric(12,2)\<close> columns hold them. The category is a foreign key.
\<close>

definition createInventoryItem :: "db \<Rightarrow> InventoryItem \<Rightarrow> ((key \<times> InventoryItem) \<times> db) option" where
  "createInventoryItem d item =
     (if integerColumn (quantity item) \<and> foreignKey (getCategoryById d) (categoryId item) then
        (case numericColumn (unitCost item) of
           None \<Rightarrow> None
         | Some c \<Rightarrow>
             (case numericColumn (amount item) of
                None \<Rightarrow> None
              | Some a \<Rightarrow>
                  Some ((nextKey d, item\<lparr>unitCost := c, amount := a\<rparr>),
                        d\<lparr>inventoryItems :=
                            (inventoryItems d)(nextKey d \<mapsto> item\<lparr>unitCost := c, amount := a\<rparr>),
                          nextKey := Suc (nextKey d)\<rparr>)))
      else None)"

text \<open>
  The update, as the modelled handler calls it: with a quantity and an amount. A key
  without a row updates nothing.
\<close>

definition updateInventoryItem :: "db \<Rightarrow> key \<Rightarrow> int \<Rightarrow> money \<Rightarrow> db option" where
  "updateInventoryItem d k q a =
     (case inventoryItems d k of
        None \<Rightarrow> Some d
      | Some cur \<Rightarrow>
          if integerColumn q then
            (case numericColumn a of
               None \<Rightarrow> None
             | Some a' \<Rightarrow>
                 Some (d\<lparr>inventoryItems := (inventoryItems d)(k \<mapsto> cur\<lparr>quantity := q, amount := a'\<rparr>)\<rparr>))
          else None)"

text \<open>The category, the item and the user of a history row are foreign keys.\<close>

definition addCategoryHistory :: "db \<Rightarrow> CategoryHistory \<Rightarrow> db option" where
  "addCategoryHistory d h =
     (if getCategoryById d (histCategoryId h) \<noteq> None \<and>
         foreignKey (inventoryItems d) (histItemId h) \<and>
         foreignKey (getUserById d) (histChangedBy h)
      then Some (d\<lparr>categoryHistory := categoryHistory d @ [h]\<rparr>)
      else None)"

definition createNotification :: "db \<Rightarrow> Notification \<Rightarrow> db option" where
  "createNotification d n =
     (if getUserById d (nUserId n) \<noteq> None
      then Some (d\<lparr>notifications := notifications d @ [n]\<rparr>)
      else None)"

definition logAuditEvent :: "db \<Rightarrow> AuditEvent \<Rightarrow> db option" where
  "logAuditEvent d e =
     (if foreignKey (getUserById d) (actorId e)
      then Some (d\<lparr>auditEvents := auditEvents d @ [e]\<rparr>)
      else None)"

definition getInventoryRequestById :: "db \<Rightarrow> key \<Rightarrow> InventoryRequest option" where
  "getInventoryRequestById d k = inventoryRequests d k"

text \<open>The reviewing user is a foreign key; a key without a row updates nothing.\<close>

definition updateInventoryRequestStatus ::
  "db \<Rightarrow> key \<Rightarrow> req_status \<Rightarrow> key \<Rightarrow> item_statuses \<Rightarrow> db option" where
  "updateInventoryRequestStatus d k s reviewedBy sts =
     (case inventoryRequests d k of
        None \<Rightarrow> Some d
      | Some r \<Rightarrow>
          if getUserById d reviewedBy \<noteq> None then
            Some (d\<lparr>inventoryRequests := (inventoryRequests d)
              (k \<mapsto> r\<lparr>irStatus := s, irReviewedBy := Some reviewedBy, irItemStatuses := Some sts\<rparr>)\<rparr>)
          else None)"

definition getReleasedOrderRequestById :: "db \<Rightarrow> key \<Rightarrow> ReleasedOrderRequest option" where
  "getReleasedOrderRequestById d k = releasedOrderRequests d k"

text \<open>
  The insert of a release request with the columns the handler gives; the others take
  their defaults. The employee is a foreign key.
\<close>

definition createReleasedOrderRequest ::
  "db \<Rightarrow> key \<Rightarrow> string \<Rightarrow> string option \<Rightarrow> bool \<Rightarrow> ReleasedItemPayload list \<Rightarrow>
     ((key \<times> ReleasedOrderRequest) \<times> db) option" where
  "createReleasedOrderRequest d employee dept rs part its =
     (if getUserById d employee \<noteq> None then
        (let row = \<lparr>roEmployeeId = employee, roDepartmentOffice = dept, roRsNo = rs,
                     roIsPartial = part, roItems = its, roItemStatuses = None,
                     roStatus = Pending, roReviewedBy = None\<rparr>
         in Some ((nextKey d, row),
                  d\<lparr>releasedOrderRequests := (releasedOrderRequests d)(nextKey d \<mapsto> row),
                    nextKey := Suc (nextKey d)\<rparr>))
      else None)"

definition updateReleasedOrderRequestStatus ::
  "db \<Rightarrow> key \<Rightarrow> req_status \<Rightarrow> key \<Rightarrow> item_statuses \<Rightarrow> db option" where
  "updateReleasedOrderRequestStatus d k s reviewedBy sts =
     (case releasedOrderRequests d k of
        None \<Rightarrow> Some d
      | Some r \<Rightarrow>
          if getUserById d reviewedBy \<noteq> None then
            Some (d\<lparr>releasedOrderRequests := (releasedOrderRequests d)
              (k \<mapsto> r\<lparr>roStatus := s, roReviewedBy := Some reviewedBy, roItemStatuses := Some sts\<rparr>)\<rparr>)
          else None)"

text \<open>
  The insert answers the report as stored: the total as the \<^verbatim>\<open>numeric(12,2)\<close> column
  holds it. The releasing user is a foreign key.
\<close>

definition createReleasedOrderReport ::
  "db \<Rightarrow> ReleasedOrderReport \<Rightarrow> (ReleasedOrderReport \<times> db) option" where
  "createReleasedOrderReport d r =
     (if getUserById d (releasedBy r) \<noteq> None then
        (case numericColumn (totalAmount r) of
           None \<Rightarrow> None
         | Some t \<Rightarrow>
             Some (r\<lparr>totalAmount := t\<rparr>,
                   d\<lparr>releasedOrderReports := releasedOrderReports d @ [r\<lparr>totalAmount := t\<rparr>]\<rparr>))
      else None)"

text \<open>\<^verbatim>\<open>io.emit\<close> and \<^verbatim>\<open>io.to(...).emit\<close>: the pushed events, in order.\<close>

definition emit :: "db \<Rightarrow> event \<Rightarrow> db" where
  "emit d e = d\<lparr>emitted := emitted d @ [e]\<rparr>"

section \<open>Responses\<close>

text \<open>
  Every \<^verbatim>\<open>return res.status(4xx)\<close> of the modelled handlers, and the 500 of their
  \<^verbatim>\<open>catch\<close>. A handler's result is its response and the database after the call: what
  was written before a query threw stays written, since no handler opens a transaction.
\<close>

datatype error =
    ValidationError
  | InsufficientPermissions
  | AdminsGenerateDirectly
  | ItemNotFound string
  | InsufficientQuantity string int int
  | InsufficientAvailable string int
  | RequestIdRequired
  | RequestNotFound
  | NotAuthorized
  | RequestNotApproved
  | ItemsRequired
  | AlreadyProcessed
  | InternalServerError

text \<open>A session that has passed \<^verbatim>\<open>requireAuth\<close>: its user id is set.\<close>

record session =
  sessUserId :: key
  sessRole :: "role option"

section \<open>Release workflow (server/routes.ts)\<close>

definition validReleasedItem :: "ReleasedItemPayload \<Rightarrow> bool" where
  "validReleasedItem it \<longleftrightarrow>
     0 < rQuantity it \<and> unit it \<noteq> [] \<and> particulars it \<noteq> [] \<and> 0 \<le> rUnitCost it \<and> 0 \<le> rAmount it"

subsection \<open>POST /api/released-orders/generate\<close>

text \<open>
  The body of the call. The handler treats a request id that is missing and one that is
  the empty string alike (\<^verbatim>\<open>!data.requestId\<close>): both are \<open>None\<close> here.
\<close>

record GenerateData =
  gRequestId :: "key option"
  gItems :: "ReleasedItemPayload list option"
  gDepartmentOffice :: string
  gRsNo :: "string option"
  gIsPartial :: "bool option"
  gReceivedBy :: "string option"

text \<open>\<^verbatim>\<open>generateReleasedOrderSchema.parse\<close>.\<close>

definition generateReleasedOrderSchema :: "GenerateData \<Rightarrow> bool" where
  "generateReleasedOrderSchema data \<longleftrightarrow>
     gDepartmentOffice data \<noteq> [] \<and>
     (case gItems data of None \<Rightarrow> True | Some its \<Rightarrow> list_all validReleasedItem its)"

text \<open>The first loop: every item is looked up and compared, nothing is written.\<close>

fun validateItems :: "db \<Rightarrow> ReleasedItemPayload list \<Rightarrow> error option" where
  "validateItems d [] = None"
| "validateItems d (it # its) =
     (case getInventoryItemById d (inventoryItemId it) of
        None \<Rightarrow> Some (ItemNotFound (particulars it))
      | Some cur \<Rightarrow>
          if quantity cur < rQuantity it
          then Some (InsufficientAvailable (particulars it) (quantity cur))
          else validateItems d its)"

text \<open>
  The second loop: each item is read again, written back and announced. \<open>Inl\<close> is the
  database as an update that threw left it, \<open>Inr\<close> the database after the whole loop.
\<close>

fun deductItems :: "db \<Rightarrow> ReleasedItemPayload list \<Rightarrow> db + db" where
  "deductItems d [] = Inr d"
| "deductItems d (it # its) =
     (case getInventoryItemById d (inventoryItemId it) of
        None \<Rightarrow> deductItems d its
      | Some cur \<Rightarrow>
          (let newQuantity = quantity cur - rQuantity it;
               newAmount = of_int newQuantity * unitCost cur
           in case updateInventoryItem d (inventoryItemId it) newQuantity newAmount of
                None \<Rightarrow> Inl d
              | Some d1 \<Rightarrow>
                  deductItems
                    (emit d1 (InventoryChange Update (getInventoryItemById d1 (inventoryItemId it))))
                    its))"

text \<open>
  \<^verbatim>\<open>allItems.filter((_, idx) => itemStatuses[idx.toString()]?.status === "approved")\<close>,
  the index counted from \<open>i\<close>.
\<close>

fun approvedItemsFrom :: "nat \<Rightarrow> item_statuses \<Rightarrow> ReleasedItemPayload list \<Rightarrow> ReleasedItemPayload list" where
  "approvedItemsFrom i sts [] = []"
| "approvedItemsFrom i sts (it # its) =
     (case sts (int i) of
        Some s \<Rightarrow> if stStatus s = ItemApproved
                  then it # approvedItemsFrom (Suc i) sts its
                  else approvedItemsFrom (Suc i) sts its
      | None \<Rightarrow> approvedItemsFrom (Suc i) sts its)"

text \<open>\<^verbatim>\<open>request.rsNo || undefined\<close>: an empty string counts as absent.\<close>

definition orUndefined :: "string option \<Rightarrow> string option" where
  "orUndefined s = (case s of None \<Rightarrow> None | Some v \<Rightarrow> if v = [] then None else Some v)"

text \<open>
  What the first part of the handler resolves: the items to release and the three
  header fields of the report.
\<close>

definition resolveRelease ::
  "session \<Rightarrow> GenerateData \<Rightarrow> db \<Rightarrow>
     error + (ReleasedItemPayload list \<times> string \<times> string option \<times> bool)" where
  "resolveRelease s data d =
     (if sessRole s = Some Employee then
        (case gRequestId data of
           None \<Rightarrow> Inl RequestIdRequired
         | Some rid \<Rightarrow>
             (case getReleasedOrderRequestById d rid of
                None \<Rightarrow> Inl RequestNotFound
              | Some request \<Rightarrow>
                  if roEmployeeId request \<noteq> sessUserId s then Inl NotAuthorized
                  else if roStatus request \<noteq> Approved \<and> roStatus request \<noteq> Partial
                    then Inl RequestNotApproved
                  else Inr (approvedItemsFrom 0
                              (case roItemStatuses request of None \<Rightarrow> Map.empty | Some m \<Rightarrow> m)
                              (roItems request),
                            roDepartmentOffice request,
                            orUndefined (roRsNo request),
                            roIsPartial request)))
      else
        (case gItems data of
           None \<Rightarrow> Inl ItemsRequired
         | Some its \<Rightarrow>
             if its = [] then Inl ItemsRequired
             else Inr (its, gDepartmentOffice data, gRsNo data,
                       (case gIsPartial data of None \<Rightarrow> False | Some b \<Rightarrow> b))))"

text \<open>
  The handler. \<open>sro\<close> is the release-order number, which the source builds from the
  clock and \<^verbatim>\<open>Math.random\<close>. The response of a success is the report as stored.
\<close>

definition generate ::
  "string \<Rightarrow> session \<Rightarrow> GenerateData \<Rightarrow> db \<Rightarrow> (error + ReleasedOrderReport) \<times> db" where
  "generate sro s data d =
     (if \<not> generateReleasedOrderSchema data then (Inl ValidationError, d)
      else
        (case resolveRelease s data d of
           Inl e \<Rightarrow> (Inl e, d)
         | Inr (itemsToRelease, dept, rs, part) \<Rightarrow>
             (case validateItems d itemsToRelease of
                Some e \<Rightarrow> (Inl e, d)
              | None \<Rightarrow>
                  (case deductItems d itemsToRelease of
                     Inl dThrown \<Rightarrow> (Inl InternalServerError, dThrown)
                   | Inr d1 \<Rightarrow>
                       (case createReleasedOrderReport d1
                               \<lparr>sroNo = sro, rsNo = rs, departmentOffice = dept,
                                isPartial = part, items = itemsToRelease,
                                totalAmount = sum_list (map rAmount itemsToRelease),
                                releasedBy = sessUserId s,
                                receivedBy = gReceivedBy data\<rparr> of
                          None \<Rightarrow> (Inl InternalServerError, d1)
                        | Some (report, d2) \<Rightarrow> (Inr report, d2))))))"

subsection \<open>POST /api/released-orders/request\<close>

record ReleaseRequestData =
  cDepartmentOffice :: string
  cRsNo :: "string option"
  cIsPartial :: "bool option"
  cItems :: "ReleasedItemPayload list"

text \<open>\<^verbatim>\<open>createReleasedOrderRequestSchema.parse\<close>.\<close>

definition createReleasedOrderRequestSchema :: "ReleaseRequestData \<Rightarrow> bool" where
  "createReleasedOrderRequestSchema data \<longleftrightarrow>
     cDepartmentOffice data \<noteq> [] \<and> cItems data \<noteq> [] \<and> list_all validReleasedItem (cItems data)"

text \<open>The pre-check loop of the submission; it reports both quantities.\<close>

fun checkStock :: "db \<Rightarrow> ReleasedItemPayload list \<Rightarrow> error option" where
  "checkStock d [] = None"
| "checkStock d (it # its) =
     (case getInventoryItemById d (inventoryItemId it) of
        None \<Rightarrow> Some (ItemNotFound (particulars it))
      | Some cur \<Rightarrow>
          if quantity cur < rQuantity it
          then Some (InsufficientQuantity (particulars it) (quantity cur) (rQuantity it))
          else checkStock d its)"

text \<open>
  One persisted notification and one push per administrator; \<open>Inl\<close> is the database
  as an insert that threw left it.
\<close>

fun notifyAdmins :: "nat \<Rightarrow> User list \<Rightarrow> db \<Rightarrow> db + db" where
  "notifyAdmins n [] d = Inr d"
| "notifyAdmins n (admin # admins) d =
     (case createNotification d
             \<lparr>nUserId = userKey admin, nType = Alert, nTitle = TitleNewReleasedOrderRequest,
              nMessage = MsgReleaseSubmitted n, nTargetRoute = ''/process-released-orders''\<rparr> of
        None \<Rightarrow> Inl d
      | Some d1 \<Rightarrow> notifyAdmins n admins (emit d1 (NotificationPush (userKey admin))))"

definition submitReleaseRequest ::
  "session \<Rightarrow> ReleaseRequestData \<Rightarrow> db \<Rightarrow> (error + ReleasedOrderRequest) \<times> db" where
  "submitReleaseRequest s data d =
     (if \<not> createReleasedOrderRequestSchema data then (Inl ValidationError, d)
      else if sessRole s = Some Admin then (Inl AdminsGenerateDirectly, d)
      else
        (case checkStock d (cItems data) of
           Some e \<Rightarrow> (Inl e, d)
         | None \<Rightarrow>
             (case createReleasedOrderRequest d (sessUserId s) (cDepartmentOffice data)
                     (cRsNo data) (case cIsPartial data of None \<Rightarrow> False | Some b \<Rightarrow> b)
                     (cItems data) of
                None \<Rightarrow> (Inl InternalServerError, d)
              | Some ((rid, request), d1) \<Rightarrow>
                  (case notifyAdmins (length (cItems data))
                          (filter (\<lambda>u. userRole u = Admin) (getAllUsers d1)) d1 of
                     Inl dThrown \<Rightarrow> (Inl InternalServerError, dThrown)
                   | Inr d2 \<Rightarrow> (Inr request, emit d2 (RequestChange Create rid))))))"

subsection \<open>POST /api/released-orders/requests/:id/review\<close>

record ItemDecision =
  decIndex :: int
  decStatus :: decision_status
  decReason :: "string option"

record ReviewData =
  rvStatus :: req_status
  rvItemDecisions :: "ItemDecision list option"

text \<open>
  \<^verbatim>\<open>reviewReleasedOrderSchema.parse\<close>: the status is one of approved, denied, partial.
  The index of a decision is any number for the schema; the model takes the integers.
\<close>

definition reviewReleasedOrderSchema :: "ReviewData \<Rightarrow> bool" where
  "reviewReleasedOrderSchema data \<longleftrightarrow> rvStatus data \<noteq> Pending"

text \<open>The statuses written for a list of decisions, a later decision overwriting an earlier one.\<close>

definition decisionStatuses :: "ItemDecision list \<Rightarrow> item_statuses" where
  "decisionStatuses decs =
     foldl (\<lambda>m dec. m(decIndex dec \<mapsto> \<lparr>stStatus = decStatus dec, stReason = decReason dec\<rparr>))
       Map.empty decs"

text \<open>
  \<^verbatim>\<open>items.forEach((_, idx) => ...)\<close> and \<^verbatim>\<open>for (let i = 0; i < items.length; i++)\<close>:
  the same status for the index of every item, the index counted from \<open>i\<close>.
\<close>

fun blanketFrom :: "nat \<Rightarrow> 'a list \<Rightarrow> decision_status \<Rightarrow> item_statuses \<Rightarrow> item_statuses" where
  "blanketFrom i [] st m = m"
| "blanketFrom i (x # xs) st m =
     blanketFrom (Suc i) xs st (m(int i \<mapsto> \<lparr>stStatus = st, stReason = None\<rparr>))"

definition blanketStatuses :: "'a list \<Rightarrow> decision_status \<Rightarrow> item_statuses" where
  "blanketStatuses its st = blanketFrom 0 its st Map.empty"

definition reviewReleaseRequest ::
  "session \<Rightarrow> key \<Rightarrow> ReviewData \<Rightarrow> db \<Rightarrow> (error + req_status) \<times> db" where
  "reviewReleaseRequest s rid data d =
     (if sessRole s \<noteq> Some Admin then (Inl InsufficientPermissions, d)
      else if \<not> reviewReleasedOrderSchema data then (Inl ValidationError, d)
      else
        (case getReleasedOrderRequestById d rid of
           None \<Rightarrow> (Inl RequestNotFound, d)
         | Some request \<Rightarrow>
             if roStatus request \<noteq> Pending then (Inl AlreadyProcessed, d)
             else
               (case updateReleasedOrderRequestStatus d rid (rvStatus data) (sessUserId s)
                       (case rvItemDecisions data of
                          Some decs \<Rightarrow> decisionStatuses decs
                        | None \<Rightarrow> blanketStatuses (roItems request)
                            (if rvStatus data = Denied then ItemDenied else ItemApproved)) of
                  None \<Rightarrow> (Inl InternalServerError, d)
                | Some d1 \<Rightarrow>
                    (case createNotification d1
                            \<lparr>nUserId = roEmployeeId request,
                             nType = (if rvStatus data = Denied then Alert else Success),
                             nTitle = TitleReleasedOrder (rvStatus data),
                             nMessage = MsgReleaseReviewed (rvStatus data),
                             nTargetRoute = ''/released-orders''\<rparr> of
                       None \<Rightarrow> (Inl InternalServerError, d1)
                     | Some d2 \<Rightarrow>
                         (Inr (rvStatus data),
                          emit (emit d2 (NotificationPush (roEmployeeId request)))
                               (RequestChange Update rid))))))"

section \<open>Inventory and request workflow (server/routes.ts)\<close>

text \<open>\<^verbatim>\<open>itemPayloadSchema.parse\<close>.\<close>

definition itemPayloadSchema :: "ItemPayload \<Rightarrow> bool" where
  "itemPayloadSchema p \<longleftrightarrow>
     pSupplier p \<noteq> [] \<and> 0 < pQuantity p \<and> pUnitOfMeasure p \<noteq> [] \<and> pItemName p \<noteq> [] \<and>
     pLocation p \<noteq> [] \<and> 0 \<le> pUnitCost p \<and> 0 \<le> pAmount p"

text \<open>
  The block "Get or create category" that each creating handler repeats: a category
  name that is present and not empty is looked up and created when unknown.
\<close>

definition getOrCreateCategory :: "db \<Rightarrow> string option \<Rightarrow> (key option \<times> db) option" where
  "getOrCreateCategory d name =
     (case orUndefined name of
        None \<Rightarrow> Some (None, d)
      | Some n \<Rightarrow>
          (case getCategoryByName d n of
             Some existing \<Rightarrow> Some (Some (catKey existing), d)
           | None \<Rightarrow>
               (case createCategory d n of
                  None \<Rightarrow> None
                | Some (newCat, d1) \<Rightarrow> Some (Some (catKey newCat), d1))))"

subsection \<open>POST /api/inventory\<close>

definition createInventory ::
  "session \<Rightarrow> ItemPayload \<Rightarrow> db \<Rightarrow> (error + InventoryItem) \<times> db" where
  "createInventory s validated d =
     (if sessRole s \<noteq> Some Admin then (Inl InsufficientPermissions, d)
      else if \<not> itemPayloadSchema validated then (Inl ValidationError, d)
      else
        (case (if orUndefined (pCategoryName validated) \<noteq> None
               then getOrCreateCategory d (pCategoryName validated)
               else Some (pCategoryId validated, d)) of
           None \<Rightarrow> (Inl InternalServerError, d)
         | Some (cat, d1) \<Rightarrow>
             (case createInventoryItem d1
                     \<lparr>supplier = pSupplier validated,
                      quantity = pQuantity validated,
                      unitOfMeasure = pUnitOfMeasure validated,
                      itemName = pItemName validated,
                      categoryId = cat,
                      location = pLocation validated,
                      unitCost = pUnitCost validated,
                      amount = toFixed2
                        (if pAmount validated \<noteq> 0 then pAmount validated
                         else of_int (pQuantity validated) * pUnitCost validated),
                      remarks = orUndefined (pRemarks validated)\<rparr> of
                None \<Rightarrow> (Inl InternalServerError, d1)
              | Some ((k, item), d2) \<Rightarrow>
                  (case (case categoryId item of
                           Some c \<Rightarrow> addCategoryHistory d2
                             \<lparr>histCategoryId = c, histItemId = Some k,
                              histChangeType = ''item_added'',
                              histNewValue = (itemName item, quantity item,
                                              Some (location item, unitCost item)),
                              histChangedBy = Some (sessUserId s)\<rparr>
                         | None \<Rightarrow> Some d2) of
                     None \<Rightarrow> (Inl InternalServerError, d2)
                   | Some d3 \<Rightarrow>
                       (case (case getUserById d3 (sessUserId s) of
                                Some actor \<Rightarrow> logAuditEvent d3
                                  \<lparr>entityType = ''inventory'', entityId = k, action = ''create'',
                                   actorId = Some (sessUserId s),
                                   actorSnapshot = (userName actor, userEmail actor),
                                   auditAfter = (itemName item, quantity item, location item)\<rparr>
                              | None \<Rightarrow> Some d3) of
                          None \<Rightarrow> (Inl InternalServerError, d3)
                        | Some d4 \<Rightarrow>
                            (Inr item, emit d4 (InventoryChange Create (Some item))))))))"

subsection \<open>PATCH /api/requests/:id\<close>

definition denialReasons :: "string list" where
  "denialReasons = [''wrong_item_name'', ''wrong_location'', ''wrong_quantity'',
     ''wrong_unit_of_measure'', ''wrong_unit_cost'', ''wrong_amount'', ''other'']"

text \<open>\<^verbatim>\<open>reviewRequestSchema.parse\<close>.\<close>

definition reviewRequestSchema :: "ReviewData \<Rightarrow> bool" where
  "reviewRequestSchema data \<longleftrightarrow>
     rvStatus data \<noteq> Pending \<and>
     (case rvItemDecisions data of
        None \<Rightarrow> True
      | Some decs \<Rightarrow> list_all (\<lambda>dec. case decReason dec of None \<Rightarrow> True
                                      | Some r \<Rightarrow> r \<in> set denialReasons) decs)"

text \<open>
  What both branches do for an approved item: resolve the category, create the
  inventory item with the amount computed from quantity and unit cost, log the category
  history, announce the item. \<open>Inl\<close> is the database as a query that threw left it.
\<close>

definition approveItem :: "key \<Rightarrow> ItemPayload \<Rightarrow> db \<Rightarrow> db + (InventoryItem \<times> db)" where
  "approveItem adminId itemData d =
     (case getOrCreateCategory d (pCategoryName itemData) of
        None \<Rightarrow> Inl d
      | Some (cat, d1) \<Rightarrow>
          (case createInventoryItem d1
                  \<lparr>supplier = pSupplier itemData,
                   quantity = pQuantity itemData,
                   unitOfMeasure = pUnitOfMeasure itemData,
                   itemName = pItemName itemData,
                   categoryId = cat,
                   location = pLocation itemData,
                   unitCost = pUnitCost itemData,
                   amount = toFixed2 (of_int (pQuantity itemData) * pUnitCost itemData),
                   remarks = orUndefined (pRemarks itemData)\<rparr> of
             None \<Rightarrow> Inl d1
           | Some ((k, newItem), d2) \<Rightarrow>
               (case (case cat of
                        Some c \<Rightarrow> addCategoryHistory d2
                          \<lparr>histCategoryId = c, histItemId = Some k,
                           histChangeType = ''item_added'',
                           histNewValue = (itemName newItem, quantity newItem, None),
                           histChangedBy = Some adminId\<rparr>
                      | None \<Rightarrow> Some d2) of
                  None \<Rightarrow> Inl d2
                | Some d3 \<Rightarrow> Inr (newItem, emit d3 (InventoryChange Create (Some newItem))))))"

text \<open>The local variables of the handler that the loops change.\<close>

record review_acc =
  accDb :: db
  accStatuses :: item_statuses
  accApproved :: nat
  accDenied :: nat
  accCreated :: "InventoryItem list"

text \<open>
  The loop over the per-item decisions. An approved decision whose index is not an
  index of \<^verbatim>\<open>items\<close> reads \<^verbatim>\<open>undefined.categoryName\<close>: the TypeError ends the handler
  with status 500 like a query that throws, and what was written before stays written.
\<close>

fun processDecisions ::
  "key \<Rightarrow> ItemPayload list \<Rightarrow> ItemDecision list \<Rightarrow> review_acc \<Rightarrow> db + review_acc" where
  "processDecisions adminId its [] acc = Inr acc"
| "processDecisions adminId its (dec # decs) acc =
     (let sts = (accStatuses acc)
                  (decIndex dec \<mapsto> \<lparr>stStatus = decStatus dec, stReason = decReason dec\<rparr>)
      in if decStatus dec = ItemApproved then
           (if 0 \<le> decIndex dec \<and> decIndex dec < int (length its) then
              (case approveItem adminId (its ! nat (decIndex dec)) (accDb acc) of
                 Inl dThrown \<Rightarrow> Inl dThrown
               | Inr (newItem, d1) \<Rightarrow>
                   processDecisions adminId its decs
                     (acc\<lparr>accDb := d1, accStatuses := sts,
                          accApproved := Suc (accApproved acc),
                          accCreated := accCreated acc @ [newItem]\<rparr>))
            else Inl (accDb acc))
         else processDecisions adminId its decs
                (acc\<lparr>accStatuses := sts, accDenied := Suc (accDenied acc)\<rparr>))"

text \<open>The loop of the blanket approval, the index counted from \<open>i\<close>.\<close>

fun approveAll :: "key \<Rightarrow> nat \<Rightarrow> ItemPayload list \<Rightarrow> review_acc \<Rightarrow> db + review_acc" where
  "approveAll adminId i [] acc = Inr acc"
| "approveAll adminId i (itemData # rest) acc =
     (case approveItem adminId itemData (accDb acc) of
        Inl dThrown \<Rightarrow> Inl dThrown
      | Inr (newItem, d1) \<Rightarrow>
          approveAll adminId (Suc i) rest
            (acc\<lparr>accDb := d1,
                 accCreated := accCreated acc @ [newItem],
                 accStatuses := (accStatuses acc)
                   (int i \<mapsto> \<lparr>stStatus = ItemApproved, stReason = None\<rparr>)\<rparr>))"

record ReviewResponse =
  approvedCount :: nat
  deniedCount :: nat
  createdItems :: "InventoryItem list"

text \<open>
  The end of the handler: the status and the item statuses are stored, the employee is
  notified, the response is sent. \<open>stored\<close> is the status written to the request,
  \<open>status\<close> the one the caller sent.
\<close>

definition finishReview ::
  "key \<Rightarrow> key \<Rightarrow> InventoryRequest \<Rightarrow> req_status \<Rightarrow> req_status \<Rightarrow> review_acc \<Rightarrow>
     (error + ReviewResponse) \<times> db" where
  "finishReview adminId rid request status stored acc =
     (case updateInventoryRequestStatus (accDb acc) rid stored adminId (accStatuses acc) of
        None \<Rightarrow> (Inl InternalServerError, accDb acc)
      | Some d1 \<Rightarrow>
          (case createNotification d1
                  \<lparr>nUserId = irEmployeeId request,
                   nType = (if 0 < accApproved acc then Success else Alert),
                   nTitle = (if 0 < accApproved acc then TitleItemsApproved
                             else TitleRequestDenied),
                   nMessage =
                     (if status = Approved \<or> accApproved acc = length (irItems request) then
                        (if length (accCreated acc) = 1
                         then MsgItemApproved (itemName (accCreated acc ! 0))
                         else MsgAllApproved (length (accCreated acc)))
                      else if status = Denied \<or> accDenied acc = length (irItems request)
                        then MsgRequestDenied
                      else MsgMixed (accApproved acc) (accDenied acc)),
                   nTargetRoute = (if 0 < accApproved acc then ''/inventory''
                                   else ''/requests'')\<rparr> of
             None \<Rightarrow> (Inl InternalServerError, d1)
           | Some d2 \<Rightarrow>
               (Inr \<lparr>approvedCount = accApproved acc, deniedCount = accDenied acc,
                     createdItems = accCreated acc\<rparr>,
                emit (emit d2 (NotificationPush (irEmployeeId request)))
                     (RequestChange Update rid))))"

text \<open>The branch for a bulk request reviewed with per-item decisions.\<close>

definition perItemReview ::
  "key \<Rightarrow> key \<Rightarrow> InventoryRequest \<Rightarrow> req_status \<Rightarrow> ItemDecision list \<Rightarrow> db \<Rightarrow>
     (error + ReviewResponse) \<times> db" where
  "perItemReview adminId rid request status decs d =
     (case processDecisions adminId (irItems request) decs
             \<lparr>accDb = d, accStatuses = Map.empty, accApproved = 0, accDenied = 0, accCreated = []\<rparr> of
        Inl dThrown \<Rightarrow> (Inl InternalServerError, dThrown)
      | Inr acc \<Rightarrow>
          finishReview adminId rid request status
            (if accApproved acc = length (irItems request) then Approved
             else if accDenied acc = length (irItems request) then Denied
             else Partial)
            acc)"

text \<open>The other branch: "Single item or approve/deny all".\<close>

definition blanketReview ::
  "key \<Rightarrow> key \<Rightarrow> InventoryRequest \<Rightarrow> req_status \<Rightarrow> db \<Rightarrow> (error + ReviewResponse) \<times> db" where
  "blanketReview adminId rid request status d =
     (if status = Approved then
        (case approveAll adminId 0 (irItems request)
                \<lparr>accDb = d, accStatuses = Map.empty, accApproved = 0, accDenied = 0,
                 accCreated = []\<rparr> of
           Inl dThrown \<Rightarrow> (Inl InternalServerError, dThrown)
         | Inr acc \<Rightarrow> finishReview adminId rid request status status acc)
      else
        finishReview adminId rid request status status
          \<lparr>accDb = d, accStatuses = blanketStatuses (irItems request) ItemDenied,
           accApproved = 0, accDenied = 0, accCreated = []\<rparr>)"

definition reviewInventoryRequest ::
  "session \<Rightarrow> key \<Rightarrow> ReviewData \<Rightarrow> db \<Rightarrow> (error + ReviewResponse) \<times> db" where
  "reviewInventoryRequest s rid data d =
     (if sessRole s \<noteq> Some Admin then (Inl InsufficientPermissions, d)
      else if \<not> reviewRequestSchema data then (Inl ValidationError, d)
      else
        (case getInventoryRequestById d rid of
           None \<Rightarrow> (Inl RequestNotFound, d)
         | Some request \<Rightarrow>
             (case rvItemDecisions data of
                Some decs \<Rightarrow>
                  if requestType request = Bulk
                  then perItemReview (sessUserId s) rid request (rvStatus data) decs d
                  else blanketReview (sessUserId s) rid request (rvStatus data) d
              | None \<Rightarrow> blanketReview (sessUserId s) rid request (rvStatus data) d)))"

section \<open>Example data\<close>

text \<open>
  An approved administrator (key 0) and an approved employee (key 5); no other rows.
\<close>

definition adminUser :: User where
  "adminUser = \<lparr>userKey = 0, userName = ''Ana'', userEmail = ''ana@gso.example'',
     userRole = Admin, isApproved = True\<rparr>"

definition employeeUser :: User where
  "employeeUser = \<lparr>userKey = 5, userName = ''Ben'', userEmail = ''ben@gso.example'',
     userRole = Employee, isApproved = True\<rparr>"

definition officeDb :: db where
  "officeDb = \<lparr>inventoryItems = Map.empty, categories = [], categoryHistory = [],
     inventoryRequests = Map.empty, releasedOrderRequests = Map.empty,
     releasedOrderReports = [], notifications = [], auditEvents = [],
     users = [adminUser, employeeUser], emitted = [], nextKey = 10\<rparr>"

definition paper :: "int \<Rightarrow> InventoryItem" where
  "paper q = \<lparr>supplier = ''ACME'', quantity = q, unitOfMeasure = ''pcs'', itemName = ''Paper'',
     categoryId = None, location = ''GSO'', unitCost = 2, amount = 2 * of_int q, remarks = None\<rparr>"

text \<open>The office with one inventory item, under key 1, of the given quantity.\<close>

definition stockDb :: "int \<Rightarrow> db" where
  "stockDb q = officeDb\<lparr>inventoryItems := [1 \<mapsto> paper q]\<rparr>"

definition releaseOf :: "key \<Rightarrow> int \<Rightarrow> ReleasedItemPayload" where
  "releaseOf k q = \<lparr>inventoryItemId = k, rQuantity = q, unit = ''pcs'', particulars = ''Paper'',
     rUnitCost = 2, rAmount = 2 * of_int q, rRemarks = None\<rparr>"

definition adminSession :: session where
  "adminSession = \<lparr>sessUserId = 0, sessRole = Some Admin\<rparr>"

definition employeeSession :: session where
  "employeeSession = \<lparr>sessUserId = 5, sessRole = Some Employee\<rparr>"

definition directData :: "ReleasedItemPayload list \<Rightarrow> GenerateData" where
  "directData its = \<lparr>gRequestId = None, gItems = Some its, gDepartmentOffice = ''Registrar'',
     gRsNo = None, gIsPartial = None, gReceivedBy = None\<rparr>"

text \<open>
  A store with that item at quantity 10 and an approved release request of employee 5
  for 4 of it, and the body that employee sends to Generate: the request's key and
  values of its own for the department, the slip number and the release type.
\<close>

definition approvedRequest :: ReleasedOrderRequest where
  "approvedRequest = \<lparr>roEmployeeId = 5, roDepartmentOffice = ''Registrar'', roRsNo = Some ''RS-9'',
     roIsPartial = True, roItems = [releaseOf 1 4],
     roItemStatuses = Some [0 \<mapsto> \<lparr>stStatus = ItemApproved, stReason = None\<rparr>],
     roStatus = Approved, roReviewedBy = Some 0\<rparr>"

definition requestDb :: db where
  "requestDb = (stockDb 10)\<lparr>releasedOrderRequests := [7 \<mapsto> approvedRequest]\<rparr>"

definition requestData :: GenerateData where
  "requestData = \<lparr>gRequestId = Some 7, gItems = None, gDepartmentOffice = ''Library'',
     gRsNo = Some ''RS-0'', gIsPartial = Some False, gReceivedBy = None\<rparr>"

definition firstReport :: ReleasedOrderReport where
  "firstReport = \<lparr>sroNo = ''SRO-2025-0001'', rsNo = Some ''RS-9'', departmentOffice = ''Registrar'',
     isPartial = True, items = [releaseOf 1 4], totalAmount = 8, releasedBy = 5,
     receivedBy = None\<rparr>"

definition afterFirst :: db where
  "afterFirst = snd (generate ''SRO-2025-0001'' employeeSession requestData requestDb)"

text \<open>
  An inventory request of employee 5 under key 3: five boxes of pens at 10 each. A
  pending release request of the same employee under key 7 for 4 of the stocked item.
\<close>

definition pens :: ItemPayload where
  "pens = \<lparr>pSupplier = ''ACME'', pQuantity = 5, pUnitOfMeasure = ''box'', pItemName = ''Pens'',
     pLocation = ''GSO'', pUnitCost = 10, pAmount = 50, pRemarks = None, pCategoryId = None,
     pCategoryName = None\<rparr>"

definition pensItem :: InventoryItem where
  "pensItem = \<lparr>supplier = ''ACME'', quantity = 5, unitOfMeasure = ''box'', itemName = ''Pens'',
     categoryId = None, location = ''GSO'', unitCost = 10, amount = 50, remarks = None\<rparr>"

definition pendingRequest :: "request_type \<Rightarrow> ItemPayload list \<Rightarrow> InventoryRequest" where
  "pendingRequest ty its = \<lparr>irEmployeeId = 5, requestType = ty, irItems = its,
     irItemStatuses = None, irStatus = Pending, irReviewedBy = None\<rparr>"

definition reviewDb :: "InventoryRequest \<Rightarrow> db" where
  "reviewDb r = officeDb\<lparr>inventoryRequests := [3 \<mapsto> r]\<rparr>"

definition blanket :: "req_status \<Rightarrow> ReviewData" where
  "blanket st = \<lparr>rvStatus = st, rvItemDecisions = None\<rparr>"

definition decide :: "int \<Rightarrow> decision_status \<Rightarrow> ItemDecision" where
  "decide i st = \<lparr>decIndex = i, decStatus = st, decReason = None\<rparr>"

definition pendingRelease :: ReleasedOrderRequest where
  "pendingRelease = \<lparr>roEmployeeId = 5, roDepartmentOffice = ''Registrar'', roRsNo = None,
     roIsPartial = False, roItems = [releaseOf 1 4], roItemStatuses = None,
     roStatus = Pending, roReviewedBy = None\<rparr>"

definition pendingReleaseDb :: db where
  "pendingReleaseDb = (stockDb 10)\<lparr>releasedOrderRequests := [7 \<mapsto> pendingRelease]\<rparr>"

text \<open>The store after the blanket approval of the one-item request.\<close>

definition afterReview :: db where
  "afterReview = snd (reviewInventoryRequest adminSession 3 (blanket Approved)
                        (reviewDb (pendingRequest Single [pens])))"

text \<open>
  A release item whose inventory item (key 2) does not exist, and the body of a
  release request.
\<close>

definition ink :: ReleasedItemPayload where
  "ink = \<lparr>inventoryItemId = 2, rQuantity = 1, unit = ''pcs'', particulars = ''Ink'',
     rUnitCost = 3, rAmount = 3, rRemarks = None\<rparr>"

definition submitData :: "ReleasedItemPayload list \<Rightarrow> ReleaseRequestData" where
  "submitData its = \<lparr>cDepartmentOffice = ''Registrar'', cRsNo = None, cIsPartial = None,
     cItems = its\<rparr>"

text \<open>
  A review of the two-item bulk request that decides item 0 only, and the store after it.
\<close>

definition partialData :: ReviewData where
  "partialData = \<lparr>rvStatus = Partial, rvItemDecisions = Some [decide 0 ItemApproved]\<rparr>"

definition afterPartialReview :: db where
  "afterPartialReview =
     snd (reviewInventoryRequest adminSession 3 partialData (reviewDb (pendingRequest Bulk [pens, pens])))"

text \<open>Two release items for the stocked paper: one of it, and five of it.\<close>

definition paperOne :: ReleasedItemPayload where
  "paperOne = releaseOf 1 1"

definition paperFive :: ReleasedItemPayload where
  "paperFive = releaseOf 1 5"

lemmas store_defs = getInventoryItemById_def updateInventoryItem_def createInventoryItem_def
  getCategoryByName_def getCategoryById_def createCategory_def addCategoryHistory_def
  createNotification_def getAllUsers_def getUserById_def logAuditEvent_def
  getInventoryRequestById_def updateInventoryRequestStatus_def getReleasedOrderRequestById_def
  createReleasedOrderRequest_def updateReleasedOrderRequestStatus_def
  createReleasedOrderReport_def emit_def integerColumn_def numericColumn_def foreignKey_def
  toFixed2_def

lemmas example_defs = adminUser_def employeeUser_def officeDb_def paper_def stockDb_def
  releaseOf_def adminSession_def employeeSession_def directData_def

lemmas request_defs = approvedRequest_def requestDb_def requestData_def

lemmas review_defs = pens_def pensItem_def pendingRequest_def reviewDb_def blanket_def decide_def
  pendingRelease_def pendingReleaseDb_def

lemmas review_handler_defs = reviewInventoryRequest_def reviewRequestSchema_def perItemReview_def
  blanketReview_def finishReview_def approveItem_def getOrCreateCategory_def orUndefined_def
  blanketStatuses_def Let_def

lemma floor_numeral_div:
  "\<lfloor>(numeral a / numeral b :: rat)\<rfloor> = numeral a div numeral b"
  using floor_divide_of_int_eq [of "numeral a" "numeral b", where ?'a = rat] by simp

section \<open>Properties of Generate\<close>

lemma validateItems_fails:
  "it \<in> set its \<Longrightarrow>
   (case getInventoryItemById d (inventoryItemId it) of
      None \<Rightarrow> True | Some cur \<Rightarrow> quantity cur < rQuantity it) \<Longrightarrow>
   validateItems d its \<noteq> None"
  by (induction its) (auto split: option.splits)

lemma directData_schema:
  "list_all validReleasedItem its \<Longrightarrow> generateReleasedOrderSchema (directData its)"
  by (simp add: generateReleasedOrderSchema_def directData_def)

lemma releaseOf_valid: "0 < q \<Longrightarrow> validReleasedItem (releaseOf k q)"
  by (simp add: validReleasedItem_def releaseOf_def)

lemma directData_resolve:
  "its \<noteq> [] \<Longrightarrow>
   resolveRelease adminSession (directData its) d = Inr (its, ''Registrar'', None, False)"
  by (simp add: resolveRelease_def directData_def adminSession_def)

text \<open>
  C2. When the validation loop of a Generate call fails for one of the resolved items
  (its inventory item is missing, or the live quantity is less than the requested one),
  the call answers with that loop's error and the database after the call is the
  database before it: nothing is deducted and no report is created.
\<close>

theorem generate_validation_failure_aborts:
  assumes "generateReleasedOrderSchema data"
    and "resolveRelease s data d = Inr (its, dept, rs, part)"
    and "it \<in> set its"
    and "case getInventoryItemById d (inventoryItemId it) of
           None \<Rightarrow> True | Some cur \<Rightarrow> quantity cur < rQuantity it"
  shows "\<exists>e. validateItems d its = Some e \<and> generate sro s data d = (Inl e, d)"
proof -
  from assms(3,4) have "validateItems d its \<noteq> None"
    by (rule validateItems_fails)
  then obtain e where "validateItems d its = Some e" by auto
  with assms(1,2) show ?thesis by (simp add: generate_def)
qed

text \<open>
  An administrator releases 4 and then 11 of an item with 10 in stock: the second item
  fails the validation, and the first one is not deducted.
\<close>

theorem generate_validation_failure_aborts_witness:
  "generate ''SRO-2025-0042'' adminSession (directData [releaseOf 1 4, releaseOf 1 11]) (stockDb 10)
     = (Inl (InsufficientAvailable ''Paper'' 10), stockDb 10)"
proof -
  let ?its = "[releaseOf 1 4, releaseOf 1 11]"
  have h1: "generateReleasedOrderSchema (directData ?its)"
    by (simp add: directData_schema releaseOf_valid)
  have h2: "resolveRelease adminSession (directData ?its) (stockDb 10)
              = Inr (?its, ''Registrar'', None, False)"
    by (simp add: directData_resolve)
  have h3: "releaseOf 1 11 \<in> set ?its" by simp
  have h4: "case getInventoryItemById (stockDb 10) (inventoryItemId (releaseOf 1 11)) of
              None \<Rightarrow> True | Some cur \<Rightarrow> quantity cur < rQuantity (releaseOf 1 11)"
    by (simp add: getInventoryItemById_def example_defs)
  have v: "validateItems (stockDb 10) ?its = Some (InsufficientAvailable ''Paper'' 10)"
    by (simp add: getInventoryItemById_def example_defs)
  from generate_validation_failure_aborts [OF h1 h2 h3 h4, of "''SRO-2025-0042''"] v
  show ?thesis by auto
qed

lemma validateItems_other_keys:
  "(\<forall>it \<in> set its. inventoryItems d' (inventoryItemId it) = inventoryItems d (inventoryItemId it)) \<Longrightarrow>
   validateItems d' its = validateItems d its"
  by (induction its) (auto simp add: getInventoryItemById_def split: option.splits)

lemma updateInventoryItem_row:
  assumes "inventoryItems d k = Some cur" and "updateInventoryItem d k q a = Some d1"
  shows "\<exists>a'. inventoryItems d1 = (inventoryItems d)(k \<mapsto> cur\<lparr>quantity := q, amount := a'\<rparr>)"
  using assms by (auto simp add: updateInventoryItem_def split: option.splits if_splits)

text \<open>
  The guard of Generate is right for a list that names every inventory item at most
  once: no quantity is negative afterwards, whether the deduction ran to its end or a
  write was refused on the way.
\<close>

lemma deductItems_distinct_nonnegative:
  assumes "\<forall>k cur. inventoryItems d k = Some cur \<longrightarrow> 0 \<le> quantity cur"
    and "validateItems d its = None"
    and "distinct (map inventoryItemId its)"
    and "deductItems d its = Inl d' \<or> deductItems d its = Inr d'"
  shows "\<forall>k cur. inventoryItems d' k = Some cur \<longrightarrow> 0 \<le> quantity cur"
  using assms
proof (induction its arbitrary: d)
  case Nil
  then show ?case by simp
next
  case (Cons it its)
  from Cons.prems(2) obtain cur where
    cur: "inventoryItems d (inventoryItemId it) = Some cur" and
    enough: "rQuantity it \<le> quantity cur" and
    rest: "validateItems d its = None"
    by (auto simp add: getInventoryItemById_def split: option.splits if_splits)
  let ?q = "quantity cur - rQuantity it"
  let ?a = "of_int ?q * unitCost cur"
  show ?case
  proof (cases "updateInventoryItem d (inventoryItemId it) ?q ?a")
    case None
    with cur Cons.prems(4) have "d' = d"
      by (simp add: getInventoryItemById_def Let_def)
    with Cons.prems(1) show ?thesis by simp
  next
    case (Some d1)
    define d2 where
      "d2 = emit d1 (InventoryChange Update (getInventoryItemById d1 (inventoryItemId it)))"
    from updateInventoryItem_row [OF cur Some] obtain a' where
      inv2: "inventoryItems d2 =
        (inventoryItems d)(inventoryItemId it \<mapsto> cur\<lparr>quantity := ?q, amount := a'\<rparr>)"
      by (auto simp add: d2_def emit_def)
    have step: "deductItems d (it # its) = deductItems d2 its"
      using cur Some by (simp add: getInventoryItemById_def Let_def d2_def)
    have nonneg: "\<forall>k c. inventoryItems d2 k = Some c \<longrightarrow> 0 \<le> quantity c"
      using Cons.prems(1) enough by (auto simp add: inv2)
    have "\<forall>x \<in> set its. inventoryItems d2 (inventoryItemId x) = inventoryItems d (inventoryItemId x)"
    proof
      fix x
      assume "x \<in> set its"
      then have "inventoryItemId x \<in> inventoryItemId ` set its" by (rule imageI)
      moreover from Cons.prems(3) have "inventoryItemId it \<notin> inventoryItemId ` set its" by simp
      ultimately have "inventoryItemId x \<noteq> inventoryItemId it" by metis
      then show "inventoryItems d2 (inventoryItemId x) = inventoryItems d (inventoryItemId x)"
        by (simp add: inv2)
    qed
    then have "validateItems d2 its = validateItems d its"
      by (rule validateItems_other_keys)
    with rest have valid: "validateItems d2 its = None" by simp
    from Cons.prems(3) have dist: "distinct (map inventoryItemId its)" by simp
    from Cons.prems(4) have out: "deductItems d2 its = Inl d' \<or> deductItems d2 its = Inr d'"
      by (simp only: step)
    from Cons.IH [OF nonneg valid dist out] show ?thesis .
  qed
qed

text \<open>
  C1. The claim is that no quantity is negative after a Generate call, also when the
  list names one inventory item more than once. The validation loop compares each entry
  with the stored quantity on its own, so two entries of 3 against a stock of 5 both
  pass; the deduction loop then subtracts both. The call succeeds and leaves the
  quantity at -1.
\<close>

theorem generate_duplicate_items_go_negative:
  "fst (generate ''SRO-2025-0042'' adminSession (directData [releaseOf 1 3, releaseOf 1 3]) (stockDb 5))
     = Inr \<lparr>sroNo = ''SRO-2025-0042'', rsNo = None, departmentOffice = ''Registrar'', isPartial = False,
            items = [releaseOf 1 3, releaseOf 1 3], totalAmount = 12, releasedBy = 0, receivedBy = None\<rparr>
   \<and> inventoryItems (snd (generate ''SRO-2025-0042'' adminSession (directData [releaseOf 1 3, releaseOf 1 3]) (stockDb 5))) 1
     = Some ((paper 5)\<lparr>quantity := - 1, amount := - 2\<rparr>)"
  by (simp add: generate_def generateReleasedOrderSchema_def resolveRelease_def
        validReleasedItem_def Let_def store_defs example_defs floor_numeral_div)

text \<open>What the deduction loop leaves alone.\<close>

lemma updateInventoryItem_frame:
  "updateInventoryItem d k q a = Some d1 \<Longrightarrow>
   users d1 = users d \<and> releasedOrderRequests d1 = releasedOrderRequests d \<and>
   releasedOrderReports d1 = releasedOrderReports d"
  by (auto simp add: updateInventoryItem_def split: option.splits if_splits)

lemma deductItems_frame:
  "deductItems d its = Inr d1 \<Longrightarrow>
   users d1 = users d \<and> releasedOrderRequests d1 = releasedOrderRequests d \<and>
   releasedOrderReports d1 = releasedOrderReports d"
proof (induction its arbitrary: d)
  case Nil
  then show ?case by simp
next
  case (Cons it its)
  show ?case
  proof (cases "getInventoryItemById d (inventoryItemId it)")
    case None
    with Cons.prems have "deductItems d its = Inr d1" by simp
    from Cons.IH [OF this] show ?thesis .
  next
    case (Some cur)
    let ?q = "quantity cur - rQuantity it"
    let ?a = "of_int ?q * unitCost cur"
    from Some Cons.prems obtain d2 where
      u: "updateInventoryItem d (inventoryItemId it) ?q ?a = Some d2"
      by (cases "updateInventoryItem d (inventoryItemId it) ?q ?a") (simp_all add: Let_def)
    let ?d3 = "emit d2 (InventoryChange Update (getInventoryItemById d2 (inventoryItemId it)))"
    from Some Cons.prems u have "deductItems ?d3 its = Inr d1" by (simp add: Let_def)
    from Cons.IH [OF this] updateInventoryItem_frame [OF u] show ?thesis
      by (simp add: emit_def)
  qed
qed

lemma resolveRelease_requests:
  assumes "releasedOrderRequests d' = releasedOrderRequests d"
  shows "resolveRelease s data d' = resolveRelease s data d"
proof -
  have h: "getReleasedOrderRequestById d' = getReleasedOrderRequestById d"
    using assms by (simp add: fun_eq_iff getReleasedOrderRequestById_def)
  show ?thesis unfolding resolveRelease_def h by (rule refl)
qed

text \<open>What a successful Generate call did, read off the handler.\<close>

lemma generate_success:
  assumes "generate sro s data d = (Inr r, d1)"
  shows "\<exists>its dept rs part dd t.
           generateReleasedOrderSchema data \<and>
           resolveRelease s data d = Inr (its, dept, rs, part) \<and>
           validateItems d its = None \<and>
           deductItems d its = Inr dd \<and>
           getUserById dd (sessUserId s) \<noteq> None \<and>
           numericColumn (sum_list (map rAmount its)) = Some t \<and>
           r = \<lparr>sroNo = sro, rsNo = rs, departmentOffice = dept, isPartial = part, items = its,
                 totalAmount = t, releasedBy = sessUserId s,
                 receivedBy = gReceivedBy data\<rparr> \<and>
           d1 = dd\<lparr>releasedOrderReports := releasedOrderReports dd @ [r]\<rparr>"
proof (cases "generateReleasedOrderSchema data")
  case False
  with assms show ?thesis by (simp add: generate_def)
next
  case schema: True
  show ?thesis
  proof (cases "resolveRelease s data d")
    case (Inl e)
    with assms schema show ?thesis by (simp add: generate_def)
  next
    case (Inr t)
    obtain its dept rs part where t: "t = (its, dept, rs, part)"
      by (cases t) auto
    show ?thesis
    proof (cases "validateItems d its")
      case (Some e)
      with assms schema Inr t show ?thesis by (simp add: generate_def)
    next
      case None
      show ?thesis
      proof (cases "deductItems d its")
        case (Inl dThrown)
        with assms schema Inr t None show ?thesis by (simp add: generate_def)
      next
        case dd: (Inr dd)
        from assms schema Inr t None dd show ?thesis
          by (auto simp add: generate_def createReleasedOrderReport_def
                split: option.splits if_splits)
      qed
    qed
  qed
qed

lemma first_generate:
  "generate ''SRO-2025-0001'' employeeSession requestData requestDb = (Inr firstReport, afterFirst)"
proof -
  have "fst (generate ''SRO-2025-0001'' employeeSession requestData requestDb) = Inr firstReport"
    by (simp add: generate_def generateReleasedOrderSchema_def resolveRelease_def orUndefined_def
          Let_def store_defs example_defs request_defs firstReport_def floor_numeral_div)
  then show ?thesis by (simp add: afterFirst_def prod_eq_iff)
qed

lemma afterFirst_stock:
  "inventoryItems afterFirst 1 = Some ((paper 10)\<lparr>quantity := 6, amount := 12\<rparr>)"
  by (simp add: afterFirst_def generate_def generateReleasedOrderSchema_def resolveRelease_def
        orUndefined_def Let_def store_defs example_defs request_defs floor_numeral_div)

lemma afterFirst_reports: "releasedOrderReports afterFirst = [firstReport]"
  by (simp add: afterFirst_def generate_def generateReleasedOrderSchema_def resolveRelease_def
        orUndefined_def Let_def store_defs example_defs request_defs firstReport_def
        floor_numeral_div)

text \<open>
  C8, as the claim states it: a second Generate call against a request whose items were
  already deducted would fail as a conflict. The handler keeps no record of a generated
  report. Here the employee generates twice against the same approved request (4 of an
  item with 10 in stock): both calls succeed, the quantity ends at 2 and two reports exist.
\<close>

theorem generate_twice_deducts_twice:
  "fst (generate ''SRO-2025-0001'' employeeSession requestData requestDb)
     = Inr \<lparr>sroNo = ''SRO-2025-0001'', rsNo = Some ''RS-9'', departmentOffice = ''Registrar'',
            isPartial = True, items = [releaseOf 1 4], totalAmount = 8, releasedBy = 5,
            receivedBy = None\<rparr>
   \<and> fst (generate ''SRO-2025-0002'' employeeSession requestData
            (snd (generate ''SRO-2025-0001'' employeeSession requestData requestDb)))
     = Inr \<lparr>sroNo = ''SRO-2025-0002'', rsNo = Some ''RS-9'', departmentOffice = ''Registrar'',
            isPartial = True, items = [releaseOf 1 4], totalAmount = 8, releasedBy = 5,
            receivedBy = None\<rparr>
   \<and> map_option quantity (inventoryItems (snd (generate ''SRO-2025-0002'' employeeSession requestData
            (snd (generate ''SRO-2025-0001'' employeeSession requestData requestDb)))) 1) = Some 2
   \<and> map sroNo (releasedOrderReports (snd (generate ''SRO-2025-0002'' employeeSession requestData
            (snd (generate ''SRO-2025-0001'' employeeSession requestData requestDb)))))
     = [''SRO-2025-0001'', ''SRO-2025-0002'']"
  by (simp add: generate_def generateReleasedOrderSchema_def resolveRelease_def orUndefined_def
        Let_def store_defs example_defs request_defs floor_numeral_div)

text \<open>
  C8, amended: Generate never changes the stored release requests, so a second call with
  the same body is handled like the first. It validates the same items against the stock
  as the first call left it: if that fails the call answers with the validation error and
  changes nothing; otherwise it deducts the items again, and unless the database refuses
  one of these writes (the answer is then 500, the earlier writes staying) it appends a
  second report, equal to the first but for its release-order number.
\<close>

theorem generate_again_like_first:
  assumes "generate sro1 s data d = (Inr r1, d1)"
  shows "releasedOrderRequests d1 = releasedOrderRequests d \<and>
         (case validateItems d1 (items r1) of
            Some e \<Rightarrow> generate sro2 s data d1 = (Inl e, d1)
          | None \<Rightarrow>
              (case deductItems d1 (items r1) of
                 Inl dThrown \<Rightarrow> generate sro2 s data d1 = (Inl InternalServerError, dThrown)
               | Inr d2 \<Rightarrow>
                   generate sro2 s data d1 =
                     (Inr (r1\<lparr>sroNo := sro2\<rparr>),
                      d2\<lparr>releasedOrderReports :=
                           releasedOrderReports d2 @ [r1\<lparr>sroNo := sro2\<rparr>]\<rparr>)))"
proof -
  from generate_success [OF assms] obtain its dept rs part dd t where
    schema: "generateReleasedOrderSchema data" and
    res: "resolveRelease s data d = Inr (its, dept, rs, part)" and
    ded: "deductItems d its = Inr dd" and
    usr: "getUserById dd (sessUserId s) \<noteq> None" and
    num: "numericColumn (sum_list (map rAmount its)) = Some t" and
    r1: "r1 = \<lparr>sroNo = sro1, rsNo = rs, departmentOffice = dept, isPartial = part, items = its,
                 totalAmount = t, releasedBy = sessUserId s,
                 receivedBy = gReceivedBy data\<rparr>" and
    d1: "d1 = dd\<lparr>releasedOrderReports := releasedOrderReports dd @ [r1]\<rparr>"
    by blast
  from deductItems_frame [OF ded] have
    same: "releasedOrderRequests d1 = releasedOrderRequests d" and
    users1: "users d1 = users d"
    by (simp_all add: d1)
  have res1: "resolveRelease s data d1 = Inr (its, dept, rs, part)"
    using res resolveRelease_requests [OF same, of s data] by simp
  have its: "items r1 = its" by (simp add: r1)
  from usr deductItems_frame [OF ded] have usr0: "getUserById d (sessUserId s) \<noteq> None"
    by (simp add: getUserById_def)
  have again: "case validateItems d1 its of
            Some e \<Rightarrow> generate sro2 s data d1 = (Inl e, d1)
          | None \<Rightarrow>
              (case deductItems d1 its of
                 Inl dThrown \<Rightarrow> generate sro2 s data d1 = (Inl InternalServerError, dThrown)
               | Inr d2 \<Rightarrow>
                   generate sro2 s data d1 =
                     (Inr (r1\<lparr>sroNo := sro2\<rparr>),
                      d2\<lparr>releasedOrderReports :=
                           releasedOrderReports d2 @ [r1\<lparr>sroNo := sro2\<rparr>]\<rparr>))"
  proof (cases "validateItems d1 its")
    case (Some e)
    with schema res1 show ?thesis by (simp add: generate_def)
  next
    case None
    show ?thesis
    proof (cases "deductItems d1 its")
      case (Inl dThrown)
      with schema res1 None show ?thesis by (simp add: generate_def)
    next
      case (Inr d2)
      from deductItems_frame [OF Inr] users1 usr0
      have "getUserById d2 (sessUserId s) \<noteq> None" by (simp add: getUserById_def)
      with schema res1 None Inr num show ?thesis
        by (simp add: generate_def createReleasedOrderReport_def r1)
    qed
  qed
  with same show ?thesis unfolding its by simp
qed

theorem generate_again_like_first_witness:
  "generate ''SRO-2025-0001'' employeeSession requestData requestDb = (Inr firstReport, afterFirst) \<and>
   releasedOrderRequests afterFirst = releasedOrderRequests requestDb \<and>
   (\<exists>d2. deductItems afterFirst [releaseOf 1 4] = Inr d2 \<and>
      map_option quantity (inventoryItems d2 1) = Some 2 \<and>
      generate ''SRO-2025-0002'' employeeSession requestData afterFirst =
        (Inr (firstReport\<lparr>sroNo := ''SRO-2025-0002''\<rparr>),
         d2\<lparr>releasedOrderReports := [firstReport, firstReport\<lparr>sroNo := ''SRO-2025-0002''\<rparr>]\<rparr>))"
proof -
  have v: "validateItems afterFirst (items firstReport) = None"
    using afterFirst_stock
    by (simp add: firstReport_def getInventoryItemById_def example_defs)
  have i: "items firstReport = [releaseOf 1 4]" by (simp add: firstReport_def)
  obtain d2 where d2: "deductItems afterFirst [releaseOf 1 4] = Inr d2"
    and q: "map_option quantity (inventoryItems d2 1) = Some 2"
    using afterFirst_stock
    by (simp add: Let_def store_defs example_defs floor_numeral_div)
  from deductItems_frame [OF d2] afterFirst_reports
  have r: "releasedOrderReports d2 = [firstReport]" by simp
  from generate_again_like_first [OF first_generate, of "''SRO-2025-0002''"] v i d2 r q
    first_generate
  show ?thesis by simp
qed

text \<open>
  C10. For an employee's Generate call that supplies a request key: a report that the call
  returns is the one row the call appends to the stored reports, and it carries the
  department and the release type of the stored request and its slip number (an empty
  slip number stored as absent); any other values the caller sends for these three fields
  give the same result; and yet an empty department in the body is refused as a
  validation error.
\<close>

theorem generate_employee_header_from_request:
  assumes "sessRole s = Some Employee" and "gRequestId data = Some rid"
  shows "(gDepartmentOffice data = [] \<longrightarrow> generate sro s data d = (Inl ValidationError, d)) \<and>
         (\<forall>report d1. generate sro s data d = (Inr report, d1) \<longrightarrow>
            (\<exists>request. getReleasedOrderRequestById d rid = Some request \<and>
               releasedOrderReports d1 = releasedOrderReports d @ [report] \<and>
               departmentOffice report = roDepartmentOffice request \<and>
               rsNo report = orUndefined (roRsNo request) \<and>
               isPartial report = roIsPartial request)) \<and>
         (\<forall>dep rs part. dep \<noteq> [] \<and> gDepartmentOffice data \<noteq> [] \<longrightarrow>
            generate sro s (data\<lparr>gDepartmentOffice := dep, gRsNo := rs, gIsPartial := part\<rparr>) d
              = generate sro s data d)"
proof (intro conjI allI impI)
  assume "gDepartmentOffice data = []"
  then show "generate sro s data d = (Inl ValidationError, d)"
    by (simp add: generate_def generateReleasedOrderSchema_def)
next
  fix report d1
  assume run: "generate sro s data d = (Inr report, d1)"
  from generate_success [OF run] obtain its dept rs part dd t where
    res: "resolveRelease s data d = Inr (its, dept, rs, part)" and
    ded: "deductItems d its = Inr dd" and
    rep: "report = \<lparr>sroNo = sro, rsNo = rs, departmentOffice = dept, isPartial = part, items = its,
                 totalAmount = t, releasedBy = sessUserId s,
                 receivedBy = gReceivedBy data\<rparr>" and
    d1: "d1 = dd\<lparr>releasedOrderReports := releasedOrderReports dd @ [report]\<rparr>"
    by blast
  from deductItems_frame [OF ded] d1 have
    stored: "releasedOrderReports d1 = releasedOrderReports d @ [report]"
    by simp
  from res assms obtain request where
    "getReleasedOrderRequestById d rid = Some request"
    "dept = roDepartmentOffice request" "rs = orUndefined (roRsNo request)"
    "part = roIsPartial request"
    by (auto simp add: resolveRelease_def split: option.splits if_splits)
  with stored show "\<exists>request. getReleasedOrderRequestById d rid = Some request \<and>
               releasedOrderReports d1 = releasedOrderReports d @ [report] \<and>
               departmentOffice report = roDepartmentOffice request \<and>
               rsNo report = orUndefined (roRsNo request) \<and>
               isPartial report = roIsPartial request"
    by (simp add: rep)
next
  fix dep :: string and rs :: "string option" and part :: "bool option"
  assume ne: "dep \<noteq> [] \<and> gDepartmentOffice data \<noteq> []"
  let ?data' = "data\<lparr>gDepartmentOffice := dep, gRsNo := rs, gIsPartial := part\<rparr>"
  have schema: "generateReleasedOrderSchema ?data' = generateReleasedOrderSchema data"
    using ne by (simp add: generateReleasedOrderSchema_def)
  have res: "resolveRelease s ?data' d = resolveRelease s data d"
    using assms by (simp add: resolveRelease_def)
  have rb: "gReceivedBy ?data' = gReceivedBy data" by simp
  show "generate sro s ?data' d = generate sro s data d"
    unfolding generate_def schema res rb by (rule refl)
qed

text \<open>
  The employee sends the department ''Library'', the slip ''RS-0'' and "not partial";
  the report stored and answered carries ''Registrar'', ''RS-9'' and "partial".
\<close>

theorem generate_employee_header_from_request_witness:
  "generate ''SRO-2025-0001'' employeeSession requestData requestDb = (Inr firstReport, afterFirst) \<and>
   gDepartmentOffice requestData = ''Library'' \<and> gRsNo requestData = Some ''RS-0'' \<and>
   gIsPartial requestData = Some False \<and>
   releasedOrderReports requestDb = [] \<and>
   releasedOrderReports afterFirst = [firstReport] \<and>
   departmentOffice firstReport = ''Registrar'' \<and> rsNo firstReport = Some ''RS-9'' \<and>
   isPartial firstReport = True \<and>
   getReleasedOrderRequestById requestDb 7 = Some approvedRequest \<and>
   departmentOffice firstReport = roDepartmentOffice approvedRequest \<and>
   rsNo firstReport = orUndefined (roRsNo approvedRequest) \<and>
   isPartial firstReport = roIsPartial approvedRequest"
proof -
  have h1: "sessRole employeeSession = Some Employee" by (simp add: employeeSession_def)
  have h2: "gRequestId requestData = Some 7" by (simp add: requestData_def)
  have stored: "getReleasedOrderRequestById requestDb 7 = Some approvedRequest"
    by (simp add: getReleasedOrderRequestById_def requestDb_def)
  have none: "releasedOrderReports requestDb = []"
    by (simp add: requestDb_def stockDb_def officeDb_def)
  from generate_employee_header_from_request [OF h1 h2, of "''SRO-2025-0001''" requestDb]
    first_generate
  have "\<exists>request. getReleasedOrderRequestById requestDb 7 = Some request \<and>
          releasedOrderReports afterFirst = releasedOrderReports requestDb @ [firstReport] \<and>
          departmentOffice firstReport = roDepartmentOffice request \<and>
          rsNo firstReport = orUndefined (roRsNo request) \<and>
          isPartial firstReport = roIsPartial request"
    by blast
  with stored none have "releasedOrderReports afterFirst = [firstReport] \<and>
          departmentOffice firstReport = roDepartmentOffice approvedRequest \<and>
          rsNo firstReport = orUndefined (roRsNo approvedRequest) \<and>
          isPartial firstReport = roIsPartial approvedRequest"
    by simp
  with stored none first_generate show ?thesis
    by (simp add: requestData_def firstReport_def)
qed

section \<open>Properties of the reviews and of the inventory handlers\<close>

text \<open>
  C9. The claim is that the employee's notification has type success whenever at least
  one item was approved, blanket approvals included. The handler takes the type from
  \<^verbatim>\<open>approvedCount\<close>, which only the per-item loop counts up. A blanket approval of a
  one-item request creates the item and stores the status approved, and the notification
  it sends has type alert and the title "Request Denied" around the message that the
  item was approved.
\<close>

theorem blanket_approval_notifies_alert:
  "fst (reviewInventoryRequest adminSession 3 (blanket Approved) (reviewDb (pendingRequest Single [pens])))
     = Inr \<lparr>approvedCount = 0, deniedCount = 0, createdItems = [pensItem]\<rparr>
   \<and> notifications (snd (reviewInventoryRequest adminSession 3 (blanket Approved)
                           (reviewDb (pendingRequest Single [pens]))))
     = [\<lparr>nUserId = 5, nType = Alert, nTitle = TitleRequestDenied,
         nMessage = MsgItemApproved ''Pens'', nTargetRoute = ''/requests''\<rparr>]
   \<and> map_option irStatus (inventoryRequests (snd (reviewInventoryRequest adminSession 3 (blanket Approved)
                           (reviewDb (pendingRequest Single [pens])))) 3) = Some Approved"
  by (simp add: review_handler_defs floor_numeral_div store_defs example_defs review_defs)

text \<open>
  C5. The claim is that the stored amount is quantity times unit cost after every
  successful mutation. The administrator's direct create takes the amount of the body
  when it is not zero (\<^verbatim>\<open>validated.amount || quantity * unitCost\<close>): five boxes at 10 sent
  with the amount 7 are stored with the amount 7, not 50.
\<close>

theorem createInventory_keeps_client_amount:
  "fst (createInventory adminSession (pens\<lparr>pAmount := 7\<rparr>) officeDb) = Inr (pensItem\<lparr>amount := 7\<rparr>)
   \<and> inventoryItems (snd (createInventory adminSession (pens\<lparr>pAmount := 7\<rparr>) officeDb)) 10
       = Some (pensItem\<lparr>amount := 7\<rparr>)
   \<and> of_int (quantity (pensItem\<lparr>amount := 7\<rparr>)) * unitCost (pensItem\<lparr>amount := 7\<rparr>) = 50"
  by (simp add: createInventory_def itemPayloadSchema_def getOrCreateCategory_def orUndefined_def
        floor_numeral_div Let_def store_defs example_defs review_defs)

text \<open>
  C3. The claim is that the stored status of a reviewed request follows from the
  per-item outcomes whatever blanket status the caller sent. The review of a release
  request stores the caller's status as it is: with the status approved and the one item
  denied, the request is stored as approved with its item denied.
\<close>

theorem reviewReleaseRequest_keeps_caller_status:
  "fst (reviewReleaseRequest adminSession 7
          \<lparr>rvStatus = Approved, rvItemDecisions = Some [decide 0 ItemDenied]\<rparr> pendingReleaseDb)
     = Inr Approved
   \<and> releasedOrderRequests (snd (reviewReleaseRequest adminSession 7
          \<lparr>rvStatus = Approved, rvItemDecisions = Some [decide 0 ItemDenied]\<rparr> pendingReleaseDb)) 7
     = Some (pendingRelease\<lparr>roStatus := Approved, roReviewedBy := Some 0,
               roItemStatuses := Some [0 \<mapsto> \<lparr>stStatus = ItemDenied, stReason = None\<rparr>]\<rparr>)"
  by (simp add: reviewReleaseRequest_def reviewReleasedOrderSchema_def decisionStatuses_def
        Let_def store_defs example_defs review_defs)

text \<open>
  C4. The claim is that a review of a request that is no longer pending fails without
  side effects, for both kinds of request. The review of a release request checks it;
  the review of an inventory request has no such check. Reviewed a second time, the
  approved one-item request creates its inventory item again and notifies again.
\<close>

theorem second_inventory_review_creates_again:
  "map_option irStatus (inventoryRequests afterReview 3) = Some Approved
   \<and> fst (reviewInventoryRequest adminSession 3 (blanket Approved) afterReview)
     = Inr \<lparr>approvedCount = 0, deniedCount = 0, createdItems = [pensItem]\<rparr>
   \<and> inventoryItems (snd (reviewInventoryRequest adminSession 3 (blanket Approved) afterReview)) 10
     = Some pensItem
   \<and> inventoryItems (snd (reviewInventoryRequest adminSession 3 (blanket Approved) afterReview)) 11
     = Some pensItem
   \<and> length (notifications (snd (reviewInventoryRequest adminSession 3 (blanket Approved) afterReview))) = 2"
  by (simp add: afterReview_def review_handler_defs floor_numeral_div store_defs example_defs review_defs)

text \<open>The check of the release review, which the inventory review lacks.\<close>

lemma reviewReleaseRequest_not_pending:
  assumes "getReleasedOrderRequestById d rid = Some request" and "roStatus request \<noteq> Pending"
  shows "\<exists>e. reviewReleaseRequest s rid data d = (Inl e, d)"
  using assms by (simp add: reviewReleaseRequest_def)

text \<open>
  C7. The claim is that every completed review persists an entry for every item, and
  that per-item decisions which do not cover all items are refused. The blanket branches
  write an entry for every index; the per-item branch writes the indices it is given and
  checks nothing. The two-item bulk request reviewed with a decision for item 0 only is
  accepted, stored as partial, and item 1 has no entry.
\<close>

theorem review_accepts_uncovered_index:
  "fst (reviewInventoryRequest adminSession 3 partialData (reviewDb (pendingRequest Bulk [pens, pens])))
     = Inr \<lparr>approvedCount = 1, deniedCount = 0, createdItems = [pensItem]\<rparr>
   \<and> map_option (\<lambda>r. (irStatus r, map_option (\<lambda>m. (m 0, m 1)) (irItemStatuses r)))
        (inventoryRequests afterPartialReview 3)
     = Some (Partial, Some (Some \<lparr>stStatus = ItemApproved, stReason = None\<rparr>, None))"
  by (simp add: afterPartialReview_def partialData_def review_handler_defs floor_numeral_div
        store_defs example_defs review_defs)

section \<open>Properties of the submission of a release request\<close>

lemma checkStock_first:
  "checkStock d its = Some e \<Longrightarrow>
   \<exists>pre failing post. its = pre @ failing # post \<and>
     (\<forall>x \<in> set pre. \<exists>stock. getInventoryItemById d (inventoryItemId x) = Some stock \<and>
        rQuantity x \<le> quantity stock) \<and>
     (case getInventoryItemById d (inventoryItemId failing) of
        None \<Rightarrow> e = ItemNotFound (particulars failing)
      | Some stock \<Rightarrow> quantity stock < rQuantity failing \<and>
          e = InsufficientQuantity (particulars failing) (quantity stock) (rQuantity failing))"
proof (induction its)
  case Nil
  then show ?case by simp
next
  case (Cons a its)
  let ?fails = "\<lambda>failing. case getInventoryItemById d (inventoryItemId failing) of
        None \<Rightarrow> e = ItemNotFound (particulars failing)
      | Some stock \<Rightarrow> quantity stock < rQuantity failing \<and>
          e = InsufficientQuantity (particulars failing) (quantity stock) (rQuantity failing)"
  let ?passes = "\<lambda>x. \<exists>stock. getInventoryItemById d (inventoryItemId x) = Some stock \<and>
        rQuantity x \<le> quantity stock"
  show ?case
  proof (cases "?passes a")
    case False
    with Cons.prems have "?fails a"
      by (auto split: option.splits if_splits)
    then have "a # its = [] @ a # its \<and> (\<forall>x \<in> set []. ?passes x) \<and> ?fails a" by simp
    then show ?thesis by blast
  next
    case True
    with Cons.prems have "checkStock d its = Some e"
      by (auto split: option.splits if_splits)
    from Cons.IH [OF this] obtain pre failing post where
      "its = pre @ failing # post" "\<forall>x \<in> set pre. ?passes x" "?fails failing"
      by blast
    with True have "a # its = (a # pre) @ failing # post \<and>
        (\<forall>x \<in> set (a # pre). ?passes x) \<and> ?fails failing"
      by simp
    then show ?thesis by blast
  qed
qed

lemma checkStock_fails:
  "it \<in> set its \<Longrightarrow> getInventoryItemById d (inventoryItemId it) = Some cur \<Longrightarrow>
   quantity cur < rQuantity it \<Longrightarrow> checkStock d its \<noteq> None"
  by (induction its) (auto split: option.splits)

text \<open>
  C6, as the claim states it: the submission fails with the insufficient-stock error
  whenever some requested quantity exceeds the live quantity. The loop stops at the first
  item that fails either check, so an item that does not exist, listed before the one
  that is short, makes the call fail with "Item not found" instead.
\<close>

theorem submitReleaseRequest_missing_item_first:
  "getInventoryItemById (stockDb 3) (inventoryItemId (releaseOf 1 5)) = Some (paper 3)
   \<and> quantity (paper 3) < rQuantity (releaseOf 1 5)
   \<and> submitReleaseRequest employeeSession (submitData [ink, releaseOf 1 5]) (stockDb 3)
     = (Inl (ItemNotFound ''Ink''), stockDb 3)"
  by (simp add: submitReleaseRequest_def createReleasedOrderRequestSchema_def validReleasedItem_def
        submitData_def ink_def store_defs example_defs)

text \<open>
  C6, amended: for a caller who is not an administrator and a body that passes the
  schema, whenever some requested quantity exceeds the live quantity of its inventory
  item the submission fails at the first item of the list that fails a check, every item
  before it existing and being in stock: with "Item not found" if that item does not
  exist, and otherwise with the insufficient-quantity error that reports the available
  and the requested quantity of that item. The database is unchanged: no request is
  persisted, no notification is created.
\<close>

theorem submitReleaseRequest_stock_check:
  assumes "createReleasedOrderRequestSchema data" and "sessRole s \<noteq> Some Admin"
    and "it \<in> set (cItems data)"
    and "getInventoryItemById d (inventoryItemId it) = Some cur"
    and "quantity cur < rQuantity it"
  shows "\<exists>pre failing post. cItems data = pre @ failing # post \<and>
           (\<forall>x \<in> set pre. \<exists>stock. getInventoryItemById d (inventoryItemId x) = Some stock \<and>
              rQuantity x \<le> quantity stock) \<and>
           (case getInventoryItemById d (inventoryItemId failing) of
              None \<Rightarrow>
                submitReleaseRequest s data d = (Inl (ItemNotFound (particulars failing)), d)
            | Some stock \<Rightarrow>
                quantity stock < rQuantity failing \<and>
                submitReleaseRequest s data d =
                  (Inl (InsufficientQuantity (particulars failing) (quantity stock)
                          (rQuantity failing)), d))"
proof -
  from assms(3-5) obtain e where e: "checkStock d (cItems data) = Some e"
    using checkStock_fails by fastforce
  from assms(1,2) e have run: "submitReleaseRequest s data d = (Inl e, d)"
    by (simp add: submitReleaseRequest_def)
  from checkStock_first [OF e] obtain pre failing post where
    split: "cItems data = pre @ failing # post" and
    pre: "\<forall>x \<in> set pre. \<exists>stock. getInventoryItemById d (inventoryItemId x) = Some stock \<and>
              rQuantity x \<le> quantity stock" and
    c: "case getInventoryItemById d (inventoryItemId failing) of
          None \<Rightarrow> e = ItemNotFound (particulars failing)
        | Some stock \<Rightarrow> quantity stock < rQuantity failing \<and>
            e = InsufficientQuantity (particulars failing) (quantity stock) (rQuantity failing)"
    by blast
  from c have "case getInventoryItemById d (inventoryItemId failing) of
              None \<Rightarrow>
                submitReleaseRequest s data d = (Inl (ItemNotFound (particulars failing)), d)
            | Some stock \<Rightarrow>
                quantity stock < rQuantity failing \<and>
                submitReleaseRequest s data d =
                  (Inl (InsufficientQuantity (particulars failing) (quantity stock)
                          (rQuantity failing)), d)"
    by (simp add: run split: option.splits)
  with split pre show ?thesis by blast
qed

lemma three_item_split:
  assumes "[a, b, c] = pre @ failing # post"
  shows "(pre = [] \<and> failing = a) \<or> (pre = [a] \<and> failing = b) \<or> (pre = [a, b] \<and> failing = c)"
  using assms by (auto simp add: Cons_eq_append_conv)

text \<open>
  Two lists over a stock of 3. With the missing item before the short one the call
  answers "Item not found"; with the short one first it reports 3 available and 5
  requested. The item in front, which is in stock, is passed over in both.
\<close>

theorem submitReleaseRequest_stock_check_witness:
  "submitReleaseRequest employeeSession (submitData [paperOne, ink, paperFive]) (stockDb 3)
     = (Inl (ItemNotFound ''Ink''), stockDb 3) \<and>
   submitReleaseRequest employeeSession (submitData [paperOne, paperFive, ink]) (stockDb 3)
     = (Inl (InsufficientQuantity ''Paper'' 3 5), stockDb 3)"
proof -
  have h2: "sessRole employeeSession \<noteq> Some Admin" by (simp add: employeeSession_def)
  have stock:
    "getInventoryItemById (stockDb 3) (inventoryItemId paperOne) = Some (paper 3)"
    "getInventoryItemById (stockDb 3) (inventoryItemId paperFive) = Some (paper 3)"
    "getInventoryItemById (stockDb 3) (inventoryItemId ink) = None"
    by (simp_all add: getInventoryItemById_def example_defs ink_def paperOne_def paperFive_def)
  have h5: "quantity (paper 3) < rQuantity paperFive"
    by (simp add: example_defs paperFive_def)
  have q: "quantity (paper 3) = 3" "rQuantity paperOne = 1" "rQuantity paperFive = 5"
    "particulars paperFive = ''Paper''" "particulars ink = ''Ink''"
    by (simp_all add: example_defs ink_def paperOne_def paperFive_def)
  have valid: "validReleasedItem paperOne" "validReleasedItem paperFive" "validReleasedItem ink"
    by (simp_all add: validReleasedItem_def releaseOf_def ink_def paperOne_def paperFive_def)
  let ?A = "[paperOne, ink, paperFive]"
  let ?B = "[paperOne, paperFive, ink]"
  have "submitReleaseRequest employeeSession (submitData ?A) (stockDb 3)
          = (Inl (ItemNotFound ''Ink''), stockDb 3)"
  proof -
    have h1: "createReleasedOrderRequestSchema (submitData ?A)"
      by (simp add: createReleasedOrderRequestSchema_def submitData_def valid)
    have h3: "paperFive \<in> set (cItems (submitData ?A))" by (simp add: submitData_def)
    from submitReleaseRequest_stock_check [OF h1 h2 h3 stock(2) h5]
    obtain pre failing post where
      s: "?A = pre @ failing # post" and
      p: "\<forall>x \<in> set pre. \<exists>stock. getInventoryItemById (stockDb 3) (inventoryItemId x) = Some stock \<and>
              rQuantity x \<le> quantity stock" and
      c: "case getInventoryItemById (stockDb 3) (inventoryItemId failing) of
              None \<Rightarrow> submitReleaseRequest employeeSession (submitData ?A) (stockDb 3)
                         = (Inl (ItemNotFound (particulars failing)), stockDb 3)
            | Some stock \<Rightarrow> quantity stock < rQuantity failing \<and>
                submitReleaseRequest employeeSession (submitData ?A) (stockDb 3) =
                  (Inl (InsufficientQuantity (particulars failing) (quantity stock)
                          (rQuantity failing)), stockDb 3)"
      by (auto simp add: submitData_def)
    from three_item_split [OF s] p c show ?thesis
      by (auto simp add: stock q)
  qed
  moreover
  have "submitReleaseRequest employeeSession (submitData ?B) (stockDb 3)
          = (Inl (InsufficientQuantity ''Paper'' 3 5), stockDb 3)"
  proof -
    have h1: "createReleasedOrderRequestSchema (submitData ?B)"
      by (simp add: createReleasedOrderRequestSchema_def submitData_def valid)
    have h3: "paperFive \<in> set (cItems (submitData ?B))" by (simp add: submitData_def)
    from submitReleaseRequest_stock_check [OF h1 h2 h3 stock(2) h5]
    obtain pre failing post where
      s: "?B = pre @ failing # post" and
      p: "\<forall>x \<in> set pre. \<exists>stock. getInventoryItemById (stockDb 3) (inventoryItemId x) = Some stock \<and>
              rQuantity x \<le> quantity stock" and
      c: "case getInventoryItemById (stockDb 3) (inventoryItemId failing) of
              None \<Rightarrow> submitReleaseRequest employeeSession (submitData ?B) (stockDb 3)
                         = (Inl (ItemNotFound (particulars failing)), stockDb 3)
            | Some stock \<Rightarrow> quantity stock < rQuantity failing \<and>
                submitReleaseRequest employeeSession (submitData ?B) (stockDb 3) =
                  (Inl (InsufficientQuantity (particulars failing) (quantity stock)
                          (rQuantity failing)), stockDb 3)"
      by (auto simp add: submitData_def)
    from three_item_split [OF s] p c show ?thesis
      by (auto simp add: stock q)
  qed
  ultimately show ?thesis by simp
qed

end
